(* ===== verification/Marker_Prelude.thy ===== *)
theory Marker_Prelude
  imports Main "HOL-Library.Sublist"
begin

text \<open>
  Shared vocabulary of the development: the type of labels, the character classes the
  label table is checked against, and the generic facts about finite enumerations and
  reverse lookup tables that the component theories instantiate.  Nothing here mentions
  the marker type; every lemma is stated over type variables, so that the component
  theories discharge its premises by evaluating a closed list.

  The character classes follow Rust's \<^verbatim>\<open>u8::is_ascii_uppercase\<close>,
  \<^verbatim>\<open>is_ascii_lowercase\<close> and \<^verbatim>\<open>to_ascii_uppercase\<close> (which clears bit 5 of a lower-case
  letter and leaves every other byte alone).

  A Rust \<^verbatim>\<open>String\<close> is a sequence of UTF-8 bytes and \<^verbatim>\<open>String::len\<close> counts bytes.
  A HOL \<^typ>\<open>string\<close> is a list of 8-bit characters, so a label is modelled as the list
  of its bytes and \<^const>\<open>length\<close> is \<^verbatim>\<open>len\<close>.
\<close>

section \<open>Names and collections\<close>

type_synonym label = string

named_theorems marker_defs \<open>definitions unfolded when a closed marker term is evaluated\<close>

section \<open>Character classes\<close>

definition is_ascii_uppercase :: "char \<Rightarrow> bool" where
  "is_ascii_uppercase c \<longleftrightarrow> (65 :: nat) \<le> of_char c \<and> of_char c \<le> (90 :: nat)"

definition is_ascii_lowercase :: "char \<Rightarrow> bool" where
  "is_ascii_lowercase c \<longleftrightarrow> (97 :: nat) \<le> of_char c \<and> of_char c \<le> (122 :: nat)"

definition to_ascii_uppercase_char :: "char \<Rightarrow> char" where
  "to_ascii_uppercase_char c =
     (if is_ascii_lowercase c
      then Char (digit0 c) (digit1 c) (digit2 c) (digit3 c) (digit4 c) False (digit6 c) (digit7 c)
      else c)"

definition to_ascii_uppercase :: "string \<Rightarrow> string" where
  "to_ascii_uppercase s = map to_ascii_uppercase_char s"

section \<open>Reverse lookup over an enumeration\<close>

definition reverse_lookup :: "('a \<Rightarrow> 'k) \<Rightarrow> 'a list \<Rightarrow> 'k \<Rightarrow> 'a option" where
  "reverse_lookup f xs = map_of (map (\<lambda>x. (f x, x)) xs)"

section \<open>Facts about enumerations\<close>

lemma eq_iff_of_distinct_map:
  assumes "distinct (map f xs)" and "a \<in> set xs" and "b \<in> set xs"
  shows "f a = f b \<longleftrightarrow> a = b"
  using assms by (auto simp: distinct_map dest: inj_onD)

lemma card_universe_of_distinct:
  assumes "set xs = (UNIV :: 'a set)" and "distinct xs"
  shows "card (UNIV :: 'a set) = length xs"
  using assms by (metis distinct_card)

section \<open>Facts about reverse lookup\<close>

lemma reverse_lookup_Nil [simp]: "reverse_lookup f [] k = None"
  by (simp add: reverse_lookup_def)

lemma reverse_lookup_Cons [simp]:
  "reverse_lookup f (x # xs) k = (if f x = k then Some x else reverse_lookup f xs k)"
  by (auto simp: reverse_lookup_def)

lemma reverse_lookup_sound:
  "reverse_lookup f xs k = Some x \<Longrightarrow> f x = k \<and> x \<in> set xs"
  by (induction xs) (auto split: if_splits)

lemma reverse_lookup_complete:
  assumes "distinct (map f xs)" and "x \<in> set xs"
  shows "reverse_lookup f xs (f x) = Some x"
  using assms by (induction xs) auto

end
