(* ===== verification/Marker_Enum.thy ===== *)
theory Marker_Enum
  imports Marker_Prelude
begin

text \<open>
  The enumeration \<^verbatim>\<open>Marker\<close> of \<^verbatim>\<open>markers.rs\<close> (lines 1--29): the closed set of
  categories a span of issue text can be replaced by.  The datatype has the source's
  variants under the source's names and in the source's order.  The variants carry no
  payload, so the type is finite.  \<open>marker_universe\<close> lists the declared variants in
  declaration order; no operation of the source returns this list, it is the closed list
  on which facts about all markers are evaluated.  The type is made an instance of the
  library's class \<open>enum\<close>, so that quantifiers over markers are executable.
\<close>

section \<open>The enumeration\<close>

datatype Marker =
    Attachment
  | ClassName
  | CloudInstanceSpec
  | Date
  | FilePath
  | FormattedLogging
  | FormattedTraceback
  | GithubLink
  | ImageAttachment
  | InlineCode
  | IssueLink
  | IPAddress
  | Log
  | MethodOrVariableName
  | NoFormatBlock
  | PackageName
  | SimpleClassName
  | SimpleMethodOrVariableName
  | StorageSize
  | StructuredCodeBlock
  | TechnologyName
  | Traceback
  | UnformattedLog
  | UnformattedTraceback
  | UserProfileLink
  | VersionNumber
  | WebLink

definition marker_universe :: "Marker list" where
  "marker_universe =
    [Attachment, ClassName, CloudInstanceSpec, Date, FilePath, FormattedLogging,
     FormattedTraceback, GithubLink, ImageAttachment, InlineCode, IssueLink, IPAddress,
     Log, MethodOrVariableName, NoFormatBlock, PackageName, SimpleClassName,
     SimpleMethodOrVariableName, StorageSize, StructuredCodeBlock, TechnologyName,
     Traceback, UnformattedLog, UnformattedTraceback, UserProfileLink, VersionNumber,
     WebLink]"

declare marker_universe_def [marker_defs]

section \<open>The universe is complete and free of repetitions\<close>

lemma in_marker_universe [simp, intro]: "m \<in> set marker_universe"
  by (cases m) (simp_all add: marker_universe_def)

lemma set_marker_universe [simp]: "set marker_universe = UNIV"
  by auto

lemma distinct_marker_universe [simp]: "distinct marker_universe"
  by (simp add: marker_universe_def)

lemma length_marker_universe [simp]: "length marker_universe = 27"
  by (simp add: marker_universe_def)

section \<open>Executable quantification over markers\<close>

instantiation Marker :: enum
begin

definition enum_Marker :: "Marker list" where
  "enum_Marker = marker_universe"

definition enum_all_Marker :: "(Marker \<Rightarrow> bool) \<Rightarrow> bool" where
  "enum_all_Marker P = list_all P marker_universe"

definition enum_ex_Marker :: "(Marker \<Rightarrow> bool) \<Rightarrow> bool" where
  "enum_ex_Marker P = list_ex P marker_universe"

instance
proof
  show "(UNIV :: Marker set) = set enum_class.enum"
    by (simp add: enum_Marker_def)
  show "distinct (enum_class.enum :: Marker list)"
    by (simp add: enum_Marker_def)
  show "enum_class.enum_all P = Ball (UNIV :: Marker set) P" for P
    by (simp add: enum_all_Marker_def list_all_iff)
  show "enum_class.enum_ex P = Bex (UNIV :: Marker set) P" for P
    by (simp add: enum_ex_Marker_def list_ex_iff)
qed

end

section \<open>Lifting a check of the universe to every marker\<close>

lemma marker_eq_iff_of_distinct:
  "distinct (map f marker_universe) \<Longrightarrow> f a = f b \<longleftrightarrow> a = (b :: Marker)"
  using eq_iff_of_distinct_map [of f marker_universe a b] by simp

text \<open>
  C11.  The enumeration has exactly twenty-seven variants: the twenty-seven lines 2--28
  of the declaration.  (The design document of the repository speaks of twenty-six.)
\<close>

theorem marker_card: "card (UNIV :: Marker set) = 27"
  using card_universe_of_distinct [OF set_marker_universe distinct_marker_universe]
  by simp

end
