(* ===== verification/String_Marker.thy ===== *)
theory String_Marker
  imports Marker_Enum
begin

text \<open>
  The label table \<^verbatim>\<open>Marker::string_marker\<close> of \<^verbatim>\<open>markers.rs\<close> (lines 36--66): the
  token that replaces a span of text of the given category.  The function is one
  exhaustive \<^verbatim>\<open>match\<close> on \<^verbatim>\<open>self\<close>; the model has one equation per arm, in the
  order of the arms, with the string literal of the arm.  The final \<^verbatim>\<open>.into()\<close> turns
  the static string slice into an owned \<^verbatim>\<open>String\<close> with the same bytes, so it
  leaves no trace in the model.

  \<open>marker_of_string\<close> is the reverse table that the labels determine.  It is not code
  of the repository: it is derived from \<open>string_marker\<close> and the list of the variants,
  and serves \<open>Label_Tokens\<close> as the reader of single words.
\<close>

section \<open>The table\<close>

fun string_marker :: "Marker \<Rightarrow> label" where
  "string_marker Attachment = ''ATTACHMENT''"
| "string_marker ClassName = ''CLASSNAME''"
| "string_marker CloudInstanceSpec = ''CLOUDINSTANCE''"
| "string_marker Date = ''DATE''"
| "string_marker FilePath = ''FILEPATH''"
| "string_marker FormattedLogging = ''FORMATTEDLOGGINGOUTPUT''"
| "string_marker FormattedTraceback = ''FORMATTEDTRACEBACK''"
| "string_marker GithubLink = ''GITHUBLINK''"
| "string_marker ImageAttachment = ''IMAGEATTACHMENT''"
| "string_marker InlineCode = ''INLINECODESAMPLE''"
| "string_marker IssueLink = ''ISSUELINK''"
| "string_marker IPAddress = ''IP ADDRESS''"
| "string_marker Log = ''LLLOG''"
| "string_marker MethodOrVariableName = ''METHODORVARIABLENAME''"
| "string_marker NoFormatBlock = ''NOFORMATBLOCK''"
| "string_marker PackageName = ''PACKAGE''"
| "string_marker SimpleClassName = ''SIMPLECLASSNAME''"
| "string_marker SimpleMethodOrVariableName = ''SIMPLEMETHODORVARIABLENAME''"
| "string_marker StorageSize = ''STORAGESIZE''"
| "string_marker StructuredCodeBlock = ''STRUCTUREDCODEBLOCK''"
| "string_marker TechnologyName = ''TECHNOLOGYNAMES''"
| "string_marker Traceback = ''TTTRACEBACK''"
| "string_marker UnformattedLog = ''UNFORMATTEDLOGGINGOUTPUT''"
| "string_marker UnformattedTraceback = ''UNFORMATTEDTRACEBACK''"
| "string_marker UserProfileLink = ''USERPROFILELINK''"
| "string_marker VersionNumber = ''VERSIONNUMBER''"
| "string_marker WebLink = ''WEBLINK''"

section \<open>Derived notions\<close>

definition marker_labels :: "label list" where
  "marker_labels = map string_marker marker_universe"

definition marker_of_string :: "label \<Rightarrow> Marker option" where
  "marker_of_string = reverse_lookup string_marker marker_universe"

definition label_char :: "char \<Rightarrow> bool" where
  "label_char c \<longleftrightarrow> is_ascii_uppercase c \<or> c = CHR '' ''"

declare marker_labels_def [marker_defs]

section \<open>Checks of the whole table\<close>

text \<open>
  The labels of all variants, evaluated as one closed list; the lemmas of
  \<open>Marker_Enum\<close> lift the check to arbitrary markers.
\<close>

lemma distinct_marker_labels: "distinct marker_labels"
  by (simp add: marker_defs)

section \<open>Distinct labels\<close>

text \<open>
  C1.  Two markers have the same label only if they are the same marker: no two arms
  of the match return the same string, so a label identifies its category.
\<close>

theorem string_marker_eq_iff: "string_marker a = string_marker b \<longleftrightarrow> a = b"
  using marker_eq_iff_of_distinct [of string_marker a b]
  by (simp add: marker_universe_def)

lemma marker_of_string_label [simp]: "marker_of_string (string_marker m) = Some m"
  using distinct_marker_labels
  by (simp add: marker_of_string_def marker_labels_def reverse_lookup_complete)

section \<open>Shape of the labels\<close>

lemma string_marker_nonempty [simp]: "string_marker m \<noteq> []"
  by (cases m) simp_all

text \<open>
  C9.  Every byte of every label is an upper-case ASCII letter or a space.
\<close>

theorem string_marker_charset: "list_all label_char (string_marker m)"
  by (cases m) (simp_all add: label_char_def is_ascii_uppercase_def)

text \<open>
  C5.  A label contains a space exactly when it is the label of \<open>IPAddress\<close>: all
  other labels are single words.
\<close>

theorem string_marker_space_iff: "CHR '' '' \<in> set (string_marker m) \<longleftrightarrow> m = IPAddress"
  by (cases m) simp_all

text \<open>
  C10.  A label has at least four and at most twenty-six bytes.
\<close>

theorem string_marker_length_bounds:
  "4 \<le> length (string_marker m) \<and> length (string_marker m) \<le> 26"
  by (cases m) simp_all

lemma string_marker_length_tight:
  "length (string_marker Date) = 4" "length (string_marker SimpleMethodOrVariableName) = 26"
  by simp_all

end
