(* ===== verification/All_Markers.thy ===== *)
theory All_Markers
  imports Marker_Enum
begin

text \<open>
  The associated function \<^verbatim>\<open>Marker::all_markers\<close> of \<^verbatim>\<open>markers.rs\<close> (lines 32--34).
  It takes no argument and returns a freshly built vector, so the model is a constant
  list.  In the source the vector is built by \<^verbatim>\<open>vec![]\<close>, the empty vector.
\<close>

section \<open>The operation\<close>

definition all_markers :: "Marker list" where
  "all_markers = []"

declare all_markers_def [marker_defs]

section \<open>What the returned vector holds\<close>

lemma length_all_markers [simp]: "length all_markers = 0"
  by (simp add: all_markers_def)

lemma set_all_markers [simp]: "set all_markers = {}"
  by (simp add: all_markers_def)

text \<open>
  C2.  No variant of the enumeration occurs in the vector that \<open>all_markers\<close>
  returns: whichever marker a caller looks for, it is not there.
\<close>

theorem all_markers_misses: "m \<notin> set all_markers"
  by (simp add: all_markers_def)

text \<open>
  The vector differs from the list of the declared variants, and falls short of it by
  all twenty-seven entries.
\<close>

lemma all_markers_not_universe:
  "all_markers \<noteq> marker_universe \<and> length marker_universe - length all_markers = 27"
  by (simp add: all_markers_def marker_universe_def)

end
