(* ===== verification/Prefix_Code.thy ===== *)
theory Prefix_Code
  imports Marker_Prelude
begin

text \<open>
  A small library on tables \<open>f\<close> from symbols to non-empty words in which no word is a
  prefix of another (prefix codes), kept apart from the marker type.  It provides an
  executable check of a finite table (\<open>prefix_free_list\<close>), a greedy decoder
  (\<open>decode_with\<close>, built from \<open>strip_prefix\<close>, which is Rust's \<^verbatim>\<open>str::strip_prefix\<close> on
  lists, and \<open>first_match\<close>), and the facts that make the decoder the inverse of
  concatenation.  The decoder recurses on the rest of the input, which is shorter by the
  matched word; the guard \<open>length r < length s\<close> in its definition makes this explicit,
  so termination needs no assumption on the table, and \<open>decode_with_concat\<close> shows that
  the guard never fires on a table of non-empty words.
\<close>

section \<open>Definitions\<close>

fun prefix_free_list :: "'b list list \<Rightarrow> bool" where
  "prefix_free_list [] = True"
| "prefix_free_list (x # xs) =
     (list_all (\<lambda>y. \<not> prefix x y \<and> \<not> prefix y x) xs \<and> prefix_free_list xs)"

fun strip_prefix :: "'b list \<Rightarrow> 'b list \<Rightarrow> 'b list option" where
  "strip_prefix [] s = Some s"
| "strip_prefix (p # ps) [] = None"
| "strip_prefix (p # ps) (c # cs) = (if p = c then strip_prefix ps cs else None)"

fun first_match :: "('a \<Rightarrow> 'b list) \<Rightarrow> 'a list \<Rightarrow> 'b list \<Rightarrow> ('a \<times> 'b list) option" where
  "first_match f [] s = None"
| "first_match f (x # xs) s =
     (case strip_prefix (f x) s of Some r \<Rightarrow> Some (x, r) | None \<Rightarrow> first_match f xs s)"

function decode_with :: "('a \<Rightarrow> 'b list) \<Rightarrow> 'a list \<Rightarrow> 'b list \<Rightarrow> 'a list option" where
  "decode_with f xs s =
     (if s = [] then Some []
      else case first_match f xs s of
        None \<Rightarrow> None
      | Some (a, r) \<Rightarrow>
          if length r < length s then map_option ((#) a) (decode_with f xs r) else None)"
  by pat_completeness auto
termination
  by (relation "measure (\<lambda>(f, xs, s). length s)") auto

declare decode_with.simps [simp del]

section \<open>Stripping a prefix\<close>

lemma strip_prefix_Some_iff: "strip_prefix p s = Some r \<longleftrightarrow> s = p @ r"
  by (induction p s rule: strip_prefix.induct) auto

lemma strip_prefix_None_iff: "strip_prefix p s = None \<longleftrightarrow> \<not> prefix p s"
  by (induction p s rule: strip_prefix.induct) auto

lemma strip_prefix_append [simp]: "strip_prefix p (p @ r) = Some r"
  by (simp add: strip_prefix_Some_iff)

section \<open>The first matching entry\<close>

lemma first_match_sound:
  "first_match f xs s = Some (a, r) \<Longrightarrow> a \<in> set xs \<and> s = f a @ r"
  by (induction xs) (auto split: option.splits simp: strip_prefix_Some_iff)

lemma first_match_None_iff:
  "first_match f xs s = None \<longleftrightarrow> (\<forall>x \<in> set xs. \<not> prefix (f x) s)"
  by (induction xs) (auto split: option.splits simp: strip_prefix_None_iff strip_prefix_Some_iff)

lemma comparable_of_append_eq:
  "u @ r = v @ r' \<Longrightarrow> prefix u v \<or> prefix v u"
  by (metis prefixI prefix_same_cases)

lemma first_match_prefix_free:
  assumes pf: "\<And>a b. prefix (f a) (f b) \<Longrightarrow> a = b" and m: "m \<in> set xs"
  shows "first_match f xs (f m @ r) = Some (m, r)"
proof -
  from m have "first_match f xs (f m @ r) \<noteq> None"
    by (auto simp: first_match_None_iff intro!: bexI [of _ m])
  then obtain a r' where *: "first_match f xs (f m @ r) = Some (a, r')"
    by auto
  then have eq: "f m @ r = f a @ r'"
    by (auto dest: first_match_sound)
  then have "prefix (f m) (f a) \<or> prefix (f a) (f m)"
    by (rule comparable_of_append_eq)
  with pf have "a = m" by blast
  with eq * show ?thesis by simp
qed

section \<open>Checking a finite table\<close>

lemma prefix_free_list_pair:
  assumes "prefix_free_list (map f xs)" and "a \<in> set xs" and "b \<in> set xs"
    and "prefix (f a) (f b)"
  shows "a = b"
  using assms by (induction xs) (auto simp: list_all_iff)

lemma prefix_iff_of_prefix_free_list:
  assumes "prefix_free_list (map f xs)" and "set xs = UNIV"
  shows "prefix (f a) (f b) \<longleftrightarrow> a = b"
  using prefix_free_list_pair [OF assms(1), of a b] assms(2) by auto

section \<open>Concatenation is injective, and the decoder inverts it\<close>

lemma prefix_free_concat_inj:
  assumes pf: "\<And>a b. prefix (f a) (f b) \<Longrightarrow> a = b" and ne: "\<And>a. f a \<noteq> []"
  shows "concat (map f xs) = concat (map f ys) \<Longrightarrow> xs = ys"
proof (induction xs arbitrary: ys)
  case Nil
  then show ?case using ne by (cases ys) auto
next
  case (Cons x xs)
  show ?case
  proof (cases ys)
    case Nil
    with Cons.prems ne show ?thesis by auto
  next
    case (Cons y ys')
    with Cons.prems have eq: "f x @ concat (map f xs) = f y @ concat (map f ys')"
      by simp
    then have "prefix (f x) (f y) \<or> prefix (f y) (f x)"
      by (rule comparable_of_append_eq)
    with pf have "x = y" by blast
    with eq Cons.IH [of ys'] Cons show ?thesis by simp
  qed
qed

lemma decode_with_Nil [simp]: "decode_with f xs [] = Some []"
  by (simp add: decode_with.simps)

lemma decode_with_concat:
  assumes pf: "\<And>a b. prefix (f a) (f b) \<Longrightarrow> a = b" and ne: "\<And>a. f a \<noteq> []"
    and sub: "set ms \<subseteq> set xs"
  shows "decode_with f xs (concat (map f ms)) = Some ms"
  using sub
proof (induction ms)
  case Nil
  then show ?case by simp
next
  case (Cons m ms)
  then have "first_match f xs (f m @ concat (map f ms)) = Some (m, concat (map f ms))"
    by (intro first_match_prefix_free pf) simp_all
  with Cons ne [of m] show ?case
    by (simp add: decode_with.simps [of f xs "f m @ concat (map f ms)"])
qed

lemma decode_with_sound:
  "decode_with f xs s = Some ms \<Longrightarrow> concat (map f ms) = s \<and> set ms \<subseteq> set xs"
proof (induction f xs s arbitrary: ms rule: decode_with.induct)
  case (1 f xs s)
  show ?case
  proof (cases "s = []")
    case True
    with "1.prems" show ?thesis by simp
  next
    case False
    with "1.prems" obtain a r ms' where fm: "first_match f xs s = Some (a, r)"
      and len: "length r < length s" and rec: "decode_with f xs r = Some ms'"
      and ms: "ms = a # ms'"
      by (auto simp: decode_with.simps [of f xs s] split: option.splits if_splits)
    from "1.IH" [OF False fm refl len rec] fm ms show ?thesis
      by (auto dest: first_match_sound)
  qed
qed

end
