(* ===== verification/Label_Code.thy ===== *)
theory Label_Code
  imports String_Marker Prefix_Code
begin

text \<open>
  The labels of \<^verbatim>\<open>Marker::string_marker\<close> as a code: which labels occur inside other
  labels, and what follows for text in which labels are written one after another.
  \<open>encode_markers\<close> juxtaposes the labels of a list of markers and \<open>decode_markers\<close>
  is the greedy decoder of \<open>Prefix_Code\<close> run with the label table; both are derived
  from \<open>string_marker\<close>.  \<open>label_collisions\<close> lists the pairs of distinct markers for
  which the first label occurs inside the second; the theorems show that the list is
  exact, that the same five pairs are the suffix relation between labels, and that no label
  starts another one.  Neither the encoder nor the decoder is code of the repository.
\<close>

section \<open>Definitions\<close>

definition encode_markers :: "Marker list \<Rightarrow> label" where
  "encode_markers ms = concat (map string_marker ms)"

definition decode_markers :: "label \<Rightarrow> Marker list option" where
  "decode_markers = decode_with string_marker marker_universe"

definition label_collisions :: "(Marker \<times> Marker) list" where
  "label_collisions =
    [(Attachment, ImageAttachment),
     (ClassName, SimpleClassName),
     (FormattedLogging, UnformattedLog),
     (FormattedTraceback, UnformattedTraceback),
     (MethodOrVariableName, SimpleMethodOrVariableName)]"

definition collides :: "Marker \<Rightarrow> Marker \<Rightarrow> bool" where
  "collides a b \<longleftrightarrow> a = b \<or> (a, b) \<in> set label_collisions"

section \<open>Checks of the whole table\<close>

lemma prefix_free_marker_labels: "prefix_free_list marker_labels"
  by (simp add: marker_defs)

section \<open>No label starts another\<close>

lemma marker_prefix_iff_of_check:
  "prefix_free_list (map f marker_universe) \<Longrightarrow> prefix (f a) (f b) \<longleftrightarrow> a = (b :: Marker)"
  using prefix_iff_of_prefix_free_list [of f marker_universe a b] by simp

lemma string_marker_prefixD: "prefix (string_marker a) (string_marker b) \<Longrightarrow> a = b"
  using marker_prefix_iff_of_check [of string_marker a b] prefix_free_marker_labels
  by (simp add: marker_labels_def)

text \<open>
  C3.  The label of one marker is a prefix of the label of another only if the two
  markers are the same: the labels form a prefix code.
\<close>

theorem string_marker_prefix_iff: "prefix (string_marker a) (string_marker b) \<longleftrightarrow> a = b"
  by (rule marker_prefix_iff_of_check) (simp add: marker_universe_def)

section \<open>Juxtaposed labels decode in one way only\<close>

lemma encode_markers_simps [simp]:
  "encode_markers [] = []"
  "encode_markers (m # ms) = string_marker m @ encode_markers ms"
  "encode_markers (xs @ ys) = encode_markers xs @ encode_markers ys"
  by (simp_all add: encode_markers_def)

text \<open>
  C8.  Two lists of markers whose labels, written one after another without a
  separator, give the same text are the same list.
\<close>

theorem encode_markers_eq_iff: "encode_markers xs = encode_markers ys \<longleftrightarrow> xs = ys"
proof
  assume "encode_markers xs = encode_markers ys"
  then have "concat (map string_marker xs) = concat (map string_marker ys)"
    by (simp add: encode_markers_def)
  with string_marker_prefixD string_marker_nonempty show "xs = ys"
    by (rule prefix_free_concat_inj)
qed simp

text \<open>
  C7.  The greedy decoder reads back every list of markers from the juxtaposition of
  their labels; in particular it returns, so the length guard of the decoder never
  fires on the label table.
\<close>

theorem decode_encode_markers: "decode_markers (encode_markers ms) = Some ms"
  unfolding encode_markers_def decode_markers_def
  by (simp add: decode_with_concat [OF string_marker_prefixD string_marker_nonempty])

lemma decode_markers_rejects: "decode_markers ''LOG'' = None"
  by (simp add: decode_markers_def marker_universe_def decode_with.simps)

section \<open>Labels inside other labels\<close>

lemma collides_universe:
  assumes "list_all (\<lambda>a. list_all (\<lambda>b. R a b = collides a b) marker_universe) marker_universe"
  shows "R a b = collides a b"
  using assms by (simp add: list_all_iff)

text \<open>
  C4.  The label of \<open>a\<close> occurs somewhere inside the label of \<open>b\<close> exactly when
  \<open>a = b\<close> or \<open>(a, b)\<close> is one of the five listed collisions: a search for one of
  these five labels in cleaned text also finds the occurrences of a second category.
\<close>

theorem string_marker_sublist_iff:
  "sublist (string_marker a) (string_marker b) \<longleftrightarrow> a = b \<or> (a, b) \<in> set label_collisions"
proof -
  have "list_all (\<lambda>a. list_all (\<lambda>b.
      sublist (string_marker a) (string_marker b) = collides a b) marker_universe) marker_universe"
    by code_simp
  then show ?thesis
    using collides_universe [of "\<lambda>a b. sublist (string_marker a) (string_marker b)" a b]
    by (simp add: collides_def)
qed

text \<open>
  C12.  The label of \<open>a\<close> is a suffix of the label of \<open>b\<close> exactly when \<open>a = b\<close>
  or \<open>(a, b)\<close> is one of the five listed collisions.
\<close>

theorem string_marker_suffix_iff:
  "suffix (string_marker a) (string_marker b) \<longleftrightarrow> a = b \<or> (a, b) \<in> set label_collisions"
proof -
  have "list_all (\<lambda>a. list_all (\<lambda>b.
      suffix (string_marker a) (string_marker b) = collides a b) marker_universe) marker_universe"
    by code_simp
  then show ?thesis
    using collides_universe [of "\<lambda>a b. suffix (string_marker a) (string_marker b)" a b]
    by (simp add: collides_def)
qed

lemma log_traceback_collision_free:
  "\<not> collides Log b \<or> b = Log" "\<not> collides Traceback b \<or> b = Traceback"
  by (auto simp: collides_def label_collisions_def)

end
