(* ===== verification/Whitespace_Tokens.thy ===== *)
theory Whitespace_Tokens
  imports Marker_Prelude
begin

text \<open>
  Words of a text, as a consumer of cleaned text sees them: \<open>join_space\<close> writes
  words with one space between neighbours (Rust's \<^verbatim>\<open>join(" ")\<close> on a slice of
  strings) and \<open>split_ascii_whitespace\<close> cuts a text at runs of ASCII white space
  and drops empty pieces (Rust's \<^verbatim>\<open>str::split_ascii_whitespace\<close>).  Both belong to
  the standard library, not to the repository; they are modelled here to state what
  happens to labels in text that is cut into words.  The splitter is one left-to-right
  pass with the current word as an accumulator in reverse.
\<close>

section \<open>Definitions\<close>

definition is_ascii_whitespace :: "char \<Rightarrow> bool" where
  "is_ascii_whitespace c \<longleftrightarrow>
     (let n = of_char c :: nat in n = 32 \<or> n = 9 \<or> n = 10 \<or> n = 12 \<or> n = 13)"

definition flush :: "string \<Rightarrow> string list" where
  "flush w = (if w = [] then [] else [rev w])"

fun split_from :: "string \<Rightarrow> string \<Rightarrow> string list" where
  "split_from w [] = flush w"
| "split_from w (c # cs) =
     (if is_ascii_whitespace c then flush w @ split_from [] cs else split_from (c # w) cs)"

definition split_ascii_whitespace :: "string \<Rightarrow> string list" where
  "split_ascii_whitespace s = split_from [] s"

fun join_space :: "string list \<Rightarrow> string" where
  "join_space [] = []"
| "join_space [w] = w"
| "join_space (w # v # ws) = w @ CHR '' '' # join_space (v # ws)"

definition is_token :: "string \<Rightarrow> bool" where
  "is_token w \<longleftrightarrow> w \<noteq> [] \<and> list_all (\<lambda>c. \<not> is_ascii_whitespace c) w"

section \<open>Characters\<close>

lemma is_ascii_whitespace_space [simp]: "is_ascii_whitespace CHR '' ''"
  by (simp add: is_ascii_whitespace_def)

lemma uppercase_not_whitespace: "is_ascii_uppercase c \<Longrightarrow> \<not> is_ascii_whitespace c"
  by (auto simp: is_ascii_uppercase_def is_ascii_whitespace_def Let_def)

section \<open>Splitting\<close>

lemma flush_Nil [simp]: "flush [] = []"
  by (simp add: flush_def)

lemma flush_nonempty: "w \<noteq> [] \<Longrightarrow> flush w = [rev w]"
  by (simp add: flush_def)

lemma split_from_cut:
  "is_ascii_whitespace c \<Longrightarrow> split_from acc (w @ c # rest) = split_from acc w @ split_from [] rest"
  by (induction w arbitrary: acc) simp_all

lemma split_from_token:
  "list_all (\<lambda>c. \<not> is_ascii_whitespace c) w \<Longrightarrow> split_from acc w = flush (rev w @ acc)"
  by (induction w arbitrary: acc) simp_all

lemma split_token: "is_token w \<Longrightarrow> split_ascii_whitespace w = [w]"
  by (simp add: is_token_def split_ascii_whitespace_def split_from_token flush_nonempty)

lemma split_Nil [simp]: "split_ascii_whitespace [] = []"
  by (simp add: split_ascii_whitespace_def)

section \<open>Splitting what was joined\<close>

lemma split_join_space:
  "split_ascii_whitespace (join_space ws) = concat (map split_ascii_whitespace ws)"
  by (induction ws rule: join_space.induct)
     (simp_all add: split_ascii_whitespace_def split_from_cut)

lemma split_join_tokens:
  "list_all is_token ws \<Longrightarrow> split_ascii_whitespace (join_space ws) = ws"
  by (induction ws) (simp_all add: split_join_space split_token)

end
