(* ===== verification/Label_Tokens.thy ===== *)
theory Label_Tokens
  imports String_Marker Whitespace_Tokens
begin

text \<open>
  The labels of \<^verbatim>\<open>Marker::string_marker\<close> in text that is cut into words.
  \<open>write_tokens\<close> writes the labels of a list of markers separated by single spaces;
  \<open>read_tokens\<close> cuts a text at white space and looks every word up in the reverse
  table of \<open>String_Marker\<close>.  \<open>read_one\<close> says what is read back for one marker.
  All three are derived from \<open>string_marker\<close>.  The theorems show that every label
  is read back as its marker, except the label of \<open>IPAddress\<close>, whose embedded space
  makes it two words that are no labels.
\<close>

section \<open>Definitions\<close>

definition write_tokens :: "Marker list \<Rightarrow> string" where
  "write_tokens ms = join_space (map string_marker ms)"

definition read_tokens :: "string \<Rightarrow> Marker option list" where
  "read_tokens s = map marker_of_string (split_ascii_whitespace s)"

definition read_one :: "Marker \<Rightarrow> Marker option list" where
  "read_one m = (if m = IPAddress then [None, None] else [Some m])"

section \<open>Words of a single label\<close>

lemma split_string_marker:
  "split_ascii_whitespace (string_marker m) =
     (if m = IPAddress then [''IP'', ''ADDRESS''] else [string_marker m])"
  by (cases m)
     (simp_all add: split_ascii_whitespace_def is_ascii_whitespace_def flush_def)

lemma marker_of_string_halves:
  "marker_of_string ''IP'' = None" "marker_of_string ''ADDRESS'' = None"
  by (simp_all add: marker_of_string_def marker_universe_def)

lemma read_tokens_string_marker: "read_tokens (string_marker m) = read_one m"
  by (simp add: read_tokens_def read_one_def split_string_marker marker_of_string_halves)

lemma read_tokens_write_tokens:
  "read_tokens (write_tokens ms) = concat (map (\<lambda>m. read_tokens (string_marker m)) ms)"
  by (simp add: read_tokens_def write_tokens_def split_join_space map_concat comp_def)

text \<open>
  A label is a single word (non-empty and free of white space) exactly when it is not
  the label of \<open>IPAddress\<close>.
\<close>

lemma string_marker_is_token: "is_token (string_marker m) \<longleftrightarrow> m \<noteq> IPAddress"
  by (cases m) (simp_all add: is_token_def is_ascii_whitespace_def)

lemma split_string_marker_token: "m \<noteq> IPAddress \<Longrightarrow> split_ascii_whitespace (string_marker m) = [string_marker m]"
  by (simp add: split_token string_marker_is_token)

section \<open>Reading back what was written\<close>

text \<open>
  C6.  Reading a text of labels separated by spaces gives, marker by marker, the
  marker itself, or two unknown words where the marker is \<open>IPAddress\<close>.
\<close>

theorem read_write_tokens: "read_tokens (write_tokens ms) = concat (map read_one ms)"
  by (simp add: read_tokens_write_tokens read_tokens_string_marker)

lemma length_concat_read_one:
  "length (concat (map read_one ms)) = length ms + count_list ms IPAddress"
  by (induction ms) (auto simp: read_one_def)

text \<open>
  The number of words read from a space-separated text of labels exceeds the number of
  markers written by the number of occurrences of \<open>IPAddress\<close>.
\<close>

lemma length_read_write_tokens:
  "length (read_tokens (write_tokens ms)) = length ms + count_list ms IPAddress"
  by (simp add: read_tokens_write_tokens read_tokens_string_marker length_concat_read_one)

end
