(* ===== verification/Label_Names.thy ===== *)
theory Label_Names
  imports String_Marker
begin

text \<open>
  The labels of \<^verbatim>\<open>Marker::string_marker\<close> against the names of the variants.
  \<open>variant_name\<close> is the identifier of each variant as the declaration of the
  enumeration spells it (\<^verbatim>\<open>markers.rs\<close>, lines 2--28); the enumeration derives no
  trait that would return it at run time.  \<open>irregular_markers\<close> lists the
  variants whose label is not that identifier in upper case.  The theorems show that the
  list is exact and say, for each irregular label, how it deviates.
\<close>

section \<open>Definitions\<close>

fun variant_name :: "Marker \<Rightarrow> string" where
  "variant_name Attachment = ''Attachment''"
| "variant_name ClassName = ''ClassName''"
| "variant_name CloudInstanceSpec = ''CloudInstanceSpec''"
| "variant_name Date = ''Date''"
| "variant_name FilePath = ''FilePath''"
| "variant_name FormattedLogging = ''FormattedLogging''"
| "variant_name FormattedTraceback = ''FormattedTraceback''"
| "variant_name GithubLink = ''GithubLink''"
| "variant_name ImageAttachment = ''ImageAttachment''"
| "variant_name InlineCode = ''InlineCode''"
| "variant_name IssueLink = ''IssueLink''"
| "variant_name IPAddress = ''IPAddress''"
| "variant_name Log = ''Log''"
| "variant_name MethodOrVariableName = ''MethodOrVariableName''"
| "variant_name NoFormatBlock = ''NoFormatBlock''"
| "variant_name PackageName = ''PackageName''"
| "variant_name SimpleClassName = ''SimpleClassName''"
| "variant_name SimpleMethodOrVariableName = ''SimpleMethodOrVariableName''"
| "variant_name StorageSize = ''StorageSize''"
| "variant_name StructuredCodeBlock = ''StructuredCodeBlock''"
| "variant_name TechnologyName = ''TechnologyName''"
| "variant_name Traceback = ''Traceback''"
| "variant_name UnformattedLog = ''UnformattedLog''"
| "variant_name UnformattedTraceback = ''UnformattedTraceback''"
| "variant_name UserProfileLink = ''UserProfileLink''"
| "variant_name VersionNumber = ''VersionNumber''"
| "variant_name WebLink = ''WebLink''"

definition upper_name :: "Marker \<Rightarrow> label" where
  "upper_name m = to_ascii_uppercase (variant_name m)"

definition irregular_markers :: "Marker list" where
  "irregular_markers =
    [CloudInstanceSpec, FormattedLogging, InlineCode, IPAddress, Log, PackageName,
     TechnologyName, Traceback, UnformattedLog]"

lemmas upper_name_defs =
  upper_name_def to_ascii_uppercase_def to_ascii_uppercase_char_def is_ascii_lowercase_def

section \<open>Regular and irregular labels\<close>

text \<open>
  C13.  The label of a marker is the name of its variant in upper case, except for the
  nine listed variants, whose labels are something else.
\<close>

theorem string_marker_upper_name_iff:
  "string_marker m = upper_name m \<longleftrightarrow> m \<notin> set irregular_markers"
  by (cases m) (simp_all add: irregular_markers_def upper_name_defs)

text \<open>
  How the irregular labels deviate: two drop the end of the name, four add to its end,
  two put a doubled first letter in front of it, and one breaks it with a space.
\<close>

lemma irregular_labels_shape:
  "strict_prefix (string_marker CloudInstanceSpec) (upper_name CloudInstanceSpec)
   \<and> strict_prefix (string_marker PackageName) (upper_name PackageName)
   \<and> strict_prefix (upper_name FormattedLogging) (string_marker FormattedLogging)
   \<and> strict_prefix (upper_name UnformattedLog) (string_marker UnformattedLog)
   \<and> strict_prefix (upper_name InlineCode) (string_marker InlineCode)
   \<and> strict_prefix (upper_name TechnologyName) (string_marker TechnologyName)
   \<and> string_marker Log = ''LL'' @ upper_name Log
   \<and> string_marker Traceback = ''TT'' @ upper_name Traceback
   \<and> filter (\<lambda>c. c \<noteq> CHR '' '') (string_marker IPAddress) = upper_name IPAddress"
  by (simp add: upper_name_defs)

end
