(* ===== verification/Spec2Isabelle.thy ===== *)
theory Spec2Isabelle
  imports Marker_Prelude Marker_Enum String_Marker All_Markers Prefix_Code Label_Code
    Whitespace_Tokens Label_Tokens Label_Names
begin

text \<open>
  \<^bold>\<open>Verification development for the marker table of the text-cleaning accelerator\<close>
  (\<^verbatim>\<open>src/deep_learning/dl_manager/accelerator/src/text_cleaning/markers.rs\<close>).

  \<^bold>\<open>The program.\<close>  The file declares the enumeration \<^verbatim>\<open>Marker\<close> (lines 1--29): the
  twenty-seven categories of text (file path, log output, web link, \<dots>) that the text
  cleaning replaces by a fixed token.  It has two operations.  \<^verbatim>\<open>Marker::string_marker\<close>
  (lines 36--66) is an exhaustive match that returns the token (the label) of a category
  as an owned string.  \<^verbatim>\<open>Marker::all_markers\<close> (lines 32--34) takes no argument and
  returns a vector of markers, built by \<^verbatim>\<open>vec![]\<close>.  There is no state, no I/O, no loop
  and no error path; the operations do not call each other.

  \<^bold>\<open>The model of the code.\<close>  Three definitions model code, and only these are mapped
  to source lines.
  \<^item> \<open>Marker\<close> (\<open>Marker_Enum\<close>): the datatype with the source's variants, names and
    order.  The enumeration derives no trait in the source, so Rust offers no equality on
    markers; equality in the model is identity of variants, which is what a match
    distinguishes.
  \<^item> \<open>string_marker\<close> (\<open>String_Marker\<close>): one equation per arm of the match with the
    literal of the arm.  A Rust string is its UTF-8 bytes and a HOL string is a list of
    8-bit characters, so the model of the returned string is the list of its bytes and
    \<open>length\<close> is \<^verbatim>\<open>String::len\<close>.
  \<^item> \<open>all_markers\<close> (\<open>All_Markers\<close>): the constant empty list.

  \<^bold>\<open>Auxiliary definitions.\<close>  Everything else is a device for stating properties of the
  three definitions above and stands for no code of the repository.
  \<^item> \<open>marker_universe\<close> (\<open>Marker_Enum\<close>) lists the declared variants in declaration
    order and \<open>variant_name\<close> (\<open>Label_Names\<close>) gives the identifier of each variant;
    both transcribe the declaration (lines 2--28), but no operation of the source returns
    them.  \<open>marker_universe\<close> carries the instance of the class \<open>enum\<close> and is the closed
    list on which facts about all markers are evaluated.
  \<^item> \<open>Label_Code\<close> over the generic \<open>Prefix_Code\<close>: the labels as a code.
    \<open>encode_markers\<close> writes labels one after another, \<open>decode_markers\<close> is a greedy
    decoder, \<open>label_collisions\<close> lists the labels that occur inside other labels.
  \<^item> \<open>Label_Tokens\<close> over the generic \<open>Whitespace_Tokens\<close>: the labels as words of a
    text.  \<open>write_tokens\<close> joins labels with spaces, \<open>read_tokens\<close> cuts a text at white
    space and looks the words up in the reverse table \<open>marker_of_string\<close>.  The splitter
    and the joiner model \<^verbatim>\<open>str::split_ascii_whitespace\<close> and \<^verbatim>\<open>join(" ")\<close> of the Rust
    standard library.
  \<^item> \<open>Marker_Prelude\<close>: the type synonym \<open>label\<close>, the collection \<open>marker_defs\<close>, the
    character classes of \<^verbatim>\<open>u8\<close> (\<open>is_ascii_uppercase\<close>, \<open>to_ascii_uppercase\<close>),
    \<open>reverse_lookup\<close>, and the generic lemmas on enumerations.

  \<^bold>\<open>What is proved.\<close>
  \<^item> About \<open>string_marker\<close> alone: the labels are pairwise distinct
    (\<open>string_marker_eq_iff\<close>); they consist of upper-case ASCII letters and spaces
    (\<open>string_marker_charset\<close>), with a space in the label of \<open>IPAddress\<close> and nowhere
    else (\<open>string_marker_space_iff\<close>); they have between 4 and 26 bytes
    (\<open>string_marker_length_bounds\<close>); each is the identifier of its variant in upper case,
    for all but nine listed variants (\<open>string_marker_upper_name_iff\<close>).
  \<^item> About pairs of labels: no label is a prefix of another
    (\<open>string_marker_prefix_iff\<close>); a label occurs inside another for exactly five pairs
    (\<open>string_marker_sublist_iff\<close>), and the same five pairs are the suffix relation
    (\<open>string_marker_suffix_iff\<close>).
  \<^item> About texts of labels: juxtaposed labels determine the list of markers
    (\<open>encode_markers_eq_iff\<close>) and the greedy decoder returns it
    (\<open>decode_encode_markers\<close>); labels separated by spaces and cut into words are read
    back marker by marker, except the label of \<open>IPAddress\<close>, which is read as two
    unknown words (\<open>read_write_tokens\<close>).
  \<^item> About the enumeration: it has 27 variants (\<open>marker_card\<close>), and the vector of
    \<open>all_markers\<close> holds none of them (\<open>all_markers_misses\<close>).

  \<^bold>\<open>Evaluation, bounds and termination.\<close>  Facts about all markers are obtained by
  evaluating a check on the closed list \<open>marker_universe\<close> (27 entries, or 27 \<times> 27 pairs for
  the facts about two labels) with the simplifier or with \<open>code_simp\<close>, and lifting the
  result with \<open>in_marker_universe\<close>; no fact rests on a bound smaller than the whole
  type.  The only recursion that is not structural is \<open>decode_with\<close> of \<open>Prefix_Code\<close>:
  it recurses on the rest of the input and terminates by the length of the input.  Its
  definition guards the recursive call by \<open>length r < length s\<close>; \<open>decode_with_concat\<close>
  shows that the guard holds whenever the table has no empty word, so the decoder over the
  labels returns on every juxtaposition of labels without fuel.

  \<^bold>\<open>What the model shows about the code.\<close>
  \<^item> \<open>all_markers\<close> returns no marker at all, although its name and type announce the
    list of the markers.
  \<^item> The enumeration has twenty-seven variants; the design document counts twenty-six.
  \<^item> One label contains a space; the design document speaks of two labels with an
    embedded space or unusual casing.
  \<^item> The doubled letters of \<^verbatim>\<open>LLLOG\<close> and \<^verbatim>\<open>TTTRACEBACK\<close> keep these labels from
    occurring inside \<^verbatim>\<open>FORMATTEDLOGGINGOUTPUT\<close> and \<^verbatim>\<open>FORMATTEDTRACEBACK\<close>; five other
    labels do occur inside longer ones.

  \<^bold>\<open>What is not modelled.\<close>  The code that detects the categories in a text and
  substitutes the labels, the loading of configuration and all I/O are not part of the
  source file and are not modelled; in particular no caller of the two operations is
  modelled.  Allocation and ownership of the returned string and vector are not modelled:
  the contents are.  \<open>Whitespace_Tokens\<close> covers ASCII white space only, which is all
  that can occur in text made of labels and spaces.
\<close>

section \<open>The example scenarios of the design document\<close>

text \<open>
  The example scenarios of the design document (section 8), on the model.
\<close>

lemma design_document_examples:
  "string_marker FilePath = ''FILEPATH''"
  "string_marker WebLink = ''WEBLINK''"
  "string_marker IPAddress = ''IP ADDRESS''"
  "string_marker Log = ''LLLOG''"
  "string_marker Traceback = ''TTTRACEBACK''"
  "all_markers = []"
  by (simp_all add: all_markers_def)

end
